theory Spec2Isabelle
  imports Main
begin

unbundle bit_operations_syntax

section \<open>Values, errors and streams\<close>

text \<open>
  A parameter bag \<open>P\<close> is the Go type \<open>map[string]interface{}\<close>. Its values are
  modelled by \<open>gval\<close>; \<open>GUnsupported\<close> stands for a Go value that
  \<open>json.Marshal\<close> rejects (a channel, a function). A bag is an association list
  read with \<open>map_of\<close>; a field of type \<open>P option\<close> is \<open>None\<close> for Go's nil map.
\<close>

datatype gval =
    GNil
  | GBool bool
  | GInt int
  | GStr string
  | GList "gval list"
  | GMap "(string \<times> gval) list"
  | GUnsupported

type_synonym P = "(string \<times> gval) list"

text \<open>
  The errors of \<open>errors.go\<close>: the four package-level values and the
  \<open>OptidashError\<close> struct (Code, Message). \<open>OtherError\<close> is any error of the
  I/O, transport or parser layer, passed on as it is. \<open>Panic\<close> is a nil dereference.
\<close>

datatype error =
    ErrInvalidSourceType
  | ErrBinaryWebhook
  | ErrBinaryStorage
  | ErrNoSuccess
  | OptidashError int string
  | OtherError string
  | Panic

text \<open>
  The tree of \<open>fastjson.Value\<close>. \<open>VInt n\<close> is a number token that denotes the
  integer \<open>n\<close>; \<open>VFrac s\<close> is any other number token, kept as its text.
\<close>

datatype jvalue =
    VNull
  | VBool bool
  | VInt int
  | VFrac string
  | VString string
  | VArray "jvalue list"
  | VObject "(string \<times> jvalue) list"

text \<open>
  \<open>Value.Get\<close> with one key: the first member of an object under that key, nil when
  there is none. An array is indexed by a decimal key; the program only passes the keys
  success, code and message, for which an array yields nil, as every other kind does.
\<close>

fun Value_Get :: "jvalue \<Rightarrow> string \<Rightarrow> jvalue option" where
  "Value_Get (VObject kvs) k = map_of kvs k"
| "Value_Get _ k = None"

text \<open>\<open>Value.Bool\<close>, \<open>Value.Int\<close> (a Go int of 64 bits) and \<open>Value.StringBytes\<close>;
  \<open>None\<close> is their error return.\<close>

fun Value_Bool :: "jvalue \<Rightarrow> bool option" where
  "Value_Bool (VBool b) = Some b"
| "Value_Bool _ = None"

fun Value_Int :: "jvalue \<Rightarrow> int option" where
  "Value_Int (VInt n) = (if - (2 ^ 63) \<le> n \<and> n < 2 ^ 63 then Some n else None)"
| "Value_Int _ = None"

fun Value_StringBytes :: "jvalue \<Rightarrow> string option" where
  "Value_StringBytes (VString s) = Some s"
| "Value_StringBytes _ = None"

text \<open>
  An \<open>io.Reader\<close>: the bytes it yields, then end of file (\<open>rd_err = None\<close>) or a
  read error. An \<open>io.Writer\<close>: what was written to it so far, and the error its
  \<open>Write\<close> returns, if it fails. The interface has no Close.
\<close>

record reader =
  rd_data :: string
  rd_err :: "error option"

record writer =
  wr_data :: string
  wr_err :: "error option"

definition ReadAll :: "reader \<Rightarrow> error + string" where
  "ReadAll rd = (case rd_err rd of Some e \<Rightarrow> Inl e | None \<Rightarrow> Inr (rd_data rd))"

text \<open>
  \<open>io.Copy\<close> into a caller's writer: a chunk that was read is written before the
  read error is looked at; a failing write ends the copy with the writer's error.
\<close>

definition io_Copy :: "writer \<Rightarrow> reader \<Rightarrow> error option \<times> writer" where
  "io_Copy dst src =
     (if rd_data src = [] then (rd_err src, dst)
      else (case wr_err dst of
              Some e \<Rightarrow> (Some e, dst)
            | None \<Rightarrow> (rd_err src, dst\<lparr>wr_data := wr_data dst @ rd_data src\<rparr>)))"

section \<open>HTTP messages and the world\<close>

datatype part =
    FormFile string string string
  | FormField string string

datatype body =
    Bytes string
  | Multipart string "part list"

type_synonym Context = nat

record http_request =
  req_method :: string
  req_url :: string
  req_header :: "string \<rightharpoonup> string"
  req_body :: body
  req_ctx :: "Context option"
  req_basic_auth :: "(string \<times> string) option"

record http_response =
  resp_header :: "string \<rightharpoonup> string"
  resp_body :: reader

text \<open>
  \<open>http.Client\<close> is what \<open>Do\<close> answers to a request. On an error the response is
  taken as absent (\<open>Do\<close> returns one with an error only after a refused redirect, its
  body already closed).
\<close>

type_synonym http_client = "http_request \<Rightarrow> error + http_response"

definition Header_Get :: "(string \<rightharpoonup> string) \<Rightarrow> string \<Rightarrow> string" where
  "Header_Get h k = (case h k of None \<Rightarrow> [] | Some v \<Rightarrow> v)"

text \<open>
  The world the calls act on: the requests handed to a transport, in order; the files
  (permission bits and content); the paths of the file handles that are open; and
  whether \<open>Close\<close> was called on the response body.
\<close>

record world =
  sent :: "http_request list"
  files :: "string \<rightharpoonup> (nat \<times> string)"
  open_files :: "string list"
  body_closed :: bool

text \<open>
  What the code takes from outside the repository: \<open>json.Marshal\<close> on the params map,
  the \<open>fastjson\<close> parser (it returns a pointer, \<open>None\<close> is nil), the boundary that
  \<open>multipart.NewWriter\<close> draws, the error with which the system refuses to open a
  path, if it does, the error with which reading the file at a path ends, if it does,
  and the umask of the process.
\<close>

record env =
  json_Marshal :: "(string \<rightharpoonup> gval) \<Rightarrow> error + string"
  Parse :: "string \<Rightarrow> error + jvalue option"
  boundary :: string
  open_deny :: "string \<Rightarrow> error option"
  read_error :: "string \<Rightarrow> error option"
  umask :: nat

definition http_Do :: "http_client \<Rightarrow> http_request \<Rightarrow> world \<Rightarrow> (error + http_response) \<times> world" where
  "http_Do c req w = (c req, w\<lparr>sent := sent w @ [req]\<rparr>)"

definition Body_Close :: "world \<Rightarrow> world" where
  "Body_Close w = w\<lparr>body_closed := True\<rparr>"

definition File_Close :: "string \<Rightarrow> world \<Rightarrow> world" where
  "File_Close path w = w\<lparr>open_files := remove1 path (open_files w)\<rparr>"

text \<open>\<open>os.OpenFile(path, O_RDONLY, 0600)\<close>: the file's content as a reader, which
  ends in the read error of that path, if there is one.\<close>

definition OpenFile_rdonly :: "env \<Rightarrow> string \<Rightarrow> world \<Rightarrow> (error + reader) \<times> world" where
  "OpenFile_rdonly e path w =
     (case open_deny e path of
        Some err \<Rightarrow> (Inl err, w)
      | None \<Rightarrow>
         (case files w path of
            None \<Rightarrow> (Inl (OtherError ''no such file or directory''), w)
          | Some f \<Rightarrow>
              (Inr \<lparr>rd_data = snd f, rd_err = read_error e path\<rparr>,
               w\<lparr>open_files := path # open_files w\<rparr>)))"

text \<open>\<open>os.OpenFile(path, O_CREATE|O_RDWR|O_TRUNC, perm)\<close>: an absent file is created
  with the bits of \<open>perm\<close> that the umask does not clear (\<open>perm AND NOT umask\<close>,
  written without \<open>NOT\<close> on the naturals), an existing one keeps its bits and loses
  its content.\<close>

definition OpenFile_create :: "env \<Rightarrow> string \<Rightarrow> nat \<Rightarrow> world \<Rightarrow> error option \<times> world" where
  "OpenFile_create e path perm w =
     (case open_deny e path of
        Some err \<Rightarrow> (Some err, w)
      | None \<Rightarrow>
         (None,
          w\<lparr>files := (files w)(path \<mapsto>
                 ((case files w path of
                     None \<Rightarrow> perm - (perm AND umask e)
                   | Some f \<Rightarrow> fst f), [])),
            open_files := path # open_files w\<rparr>))"

text \<open>
  \<open>io.Copy(file, reader)\<close> into the open file at \<open>path\<close>: the bytes read are
  appended, and the copy ends with the reader's error, if it has one. Writes to an open
  file are taken to succeed. (The file is there, since it was just opened; the first
  case is for totality.)
\<close>

definition Copy_to_file :: "string \<Rightarrow> reader \<Rightarrow> world \<Rightarrow> error option \<times> world" where
  "Copy_to_file path src w =
     (rd_err src,
      w\<lparr>files := (files w)(path \<mapsto>
             (case files w path of
                None \<Rightarrow> (0, rd_data src)
              | Some f \<Rightarrow> (fst f, snd f @ rd_data src)))\<rparr>)"

section \<open>Client and request builder\<close>

record Client =
  Key :: string
  Client :: http_client

type_synonym source = int

definition readerSource :: source where "readerSource = 0"
definition pathSource :: source where "pathSource = 1"
definition fetchSource :: source where "fetchSource = 2"

definition apiURL :: string where
  "apiURL = ''https://api.optidash.ai/1.0''"

record Request =
  client :: Client
  http :: http_client
  source :: source
  reader :: "reader option"
  location :: string
  ctx :: "Context option"
  optimize :: "P option"
  flip :: "P option"
  resize :: "P option"
  scale :: "P option"
  crop :: "P option"
  watermark :: "P option"
  mask :: "P option"
  stylize :: "P option"
  adjust :: "P option"
  auto :: "P option"
  border :: "P option"
  padding :: "P option"
  store :: "P option"
  output' :: "P option"
  webhook :: "P option"
  response :: "P option"
  cdn :: "P option"

text \<open>
  \<open>NewClient\<close>; \<open>dflt\<close> is \<open>http.DefaultClient\<close>.
\<close>

definition NewClient :: "http_client \<Rightarrow> string \<Rightarrow> error + Client" where
  "NewClient dflt key =
     (if key = [] then Inl (OtherError ''Invalid configuration, API key is empty'')
      else Inr \<lparr>Key = key, Client = dflt\<rparr>)"

text \<open>A \<open>Request\<close> literal: the fields it does not name are Go's zero values.\<close>

definition Request_literal :: "Client \<Rightarrow> source \<Rightarrow> reader option \<Rightarrow> string \<Rightarrow> Request" where
  "Request_literal c src rd loc =
     \<lparr>client = c, http = Client c, source = src, reader = rd, location = loc, ctx = None,
      optimize = None, flip = None, resize = None, scale = None, crop = None,
      watermark = None, mask = None, stylize = None, adjust = None, auto = None,
      border = None, padding = None, store = None, output' = None, webhook = None,
      response = None, cdn = None\<rparr>"

text \<open>\<open>Upload\<close> switches on the dynamic type of its argument; nil is \<open>None\<close>.\<close>

datatype upload_input =
    InputReader reader
  | InputString string
  | InputOther

definition Upload :: "Client \<Rightarrow> upload_input \<Rightarrow> Request option" where
  "Upload c input =
     (case input of
        InputReader v \<Rightarrow> Some (Request_literal c readerSource (Some v) [])
      | InputString v \<Rightarrow> Some (Request_literal c pathSource None v)
      | InputOther \<Rightarrow> None)"

definition Fetch :: "Client \<Rightarrow> string \<Rightarrow> Request" where
  "Fetch c url = Request_literal c fetchSource None url"

text \<open>The chained setters. Each stores its argument and returns the builder.\<close>

definition HTTPClient :: "http_client \<Rightarrow> Request \<Rightarrow> Request" where
  "HTTPClient c r = r\<lparr>http := c\<rparr>"

definition Optimize :: "P option \<Rightarrow> Request \<Rightarrow> Request" where
  "Optimize data r = r\<lparr>optimize := data\<rparr>"

definition Flip :: "P option \<Rightarrow> Request \<Rightarrow> Request" where
  "Flip data r = r\<lparr>flip := data\<rparr>"

definition Resize :: "P option \<Rightarrow> Request \<Rightarrow> Request" where
  "Resize data r = r\<lparr>resize := data\<rparr>"

definition Scale :: "P option \<Rightarrow> Request \<Rightarrow> Request" where
  "Scale data r = r\<lparr>scale := data\<rparr>"

definition Crop :: "P option \<Rightarrow> Request \<Rightarrow> Request" where
  "Crop data r = r\<lparr>crop := data\<rparr>"

definition Watermark :: "P option \<Rightarrow> Request \<Rightarrow> Request" where
  "Watermark data r = r\<lparr>watermark := data\<rparr>"

definition Mask :: "P option \<Rightarrow> Request \<Rightarrow> Request" where
  "Mask data r = r\<lparr>mask := data\<rparr>"

definition Stylize :: "P option \<Rightarrow> Request \<Rightarrow> Request" where
  "Stylize data r = r\<lparr>stylize := data\<rparr>"

definition Adjust :: "P option \<Rightarrow> Request \<Rightarrow> Request" where
  "Adjust data r = r\<lparr>adjust := data\<rparr>"

definition Auto :: "P option \<Rightarrow> Request \<Rightarrow> Request" where
  "Auto data r = r\<lparr>auto := data\<rparr>"

definition Border :: "P option \<Rightarrow> Request \<Rightarrow> Request" where
  "Border data r = r\<lparr>border := data\<rparr>"

definition Padding :: "P option \<Rightarrow> Request \<Rightarrow> Request" where
  "Padding data r = r\<lparr>padding := data\<rparr>"

definition Store :: "P option \<Rightarrow> Request \<Rightarrow> Request" where
  "Store data r = r\<lparr>store := data\<rparr>"

definition Output :: "P option \<Rightarrow> Request \<Rightarrow> Request" where
  "Output data r = r\<lparr>output' := data\<rparr>"

definition Webhook :: "P option \<Rightarrow> Request \<Rightarrow> Request" where
  "Webhook data r = r\<lparr>webhook := data\<rparr>"

definition CDN :: "P option \<Rightarrow> Request \<Rightarrow> Request" where
  "CDN data r = r\<lparr>cdn := data\<rparr>"

definition Context :: "Context option \<Rightarrow> Request \<Rightarrow> Request" where
  "Context c r = r\<lparr>ctx := c\<rparr>"

section \<open>execute\<close>

text \<open>
  One statement \<open>if r.x != nil { params["x"] = r.x }\<close> of \<open>execute\<close>.
\<close>

definition put_step :: "string \<Rightarrow> P option \<Rightarrow> (string \<rightharpoonup> gval) \<Rightarrow> (string \<rightharpoonup> gval)" where
  "put_step name bag params =
     (case bag of None \<Rightarrow> params | Some p \<Rightarrow> params(name \<mapsto> GMap p))"

text \<open>
  The params map \<open>execute\<close> builds first (its statements up to the call of
  \<open>json.Marshal\<close>), in the order of the source. The source has no statement for the
  fields \<open>optimize\<close> and \<open>flip\<close>.
\<close>

definition execute_params :: "Request \<Rightarrow> (string \<rightharpoonup> gval)" where
  "execute_params r =
     (let params = Map.empty;
          params = put_step ''resize'' (resize r) params;
          params = put_step ''scale'' (scale r) params;
          params = put_step ''crop'' (crop r) params;
          params = put_step ''watermark'' (watermark r) params;
          params = put_step ''mask'' (mask r) params;
          params = put_step ''stylize'' (stylize r) params;
          params = put_step ''adjust'' (adjust r) params;
          params = put_step ''auto'' (auto r) params;
          params = put_step ''border'' (border r) params;
          params = put_step ''padding'' (padding r) params;
          params = put_step ''store'' (store r) params;
          params = put_step ''output'' (output' r) params;
          params = put_step ''webhook'' (webhook r) params;
          params = put_step ''response'' (response r) params;
          params = put_step ''cdn'' (cdn r) params;
          params = (if source r = fetchSource
                    then params(''url'' \<mapsto> GStr (location r)) else params)
      in params)"

text \<open>
  The end of \<open>execute\<close>: the request is made from the URL, the content type and the
  body, and handed to the builder's client. \<open>http.NewRequest\<close> cannot fail on the
  method POST and the two URLs of the program, so its error return has no branch.
\<close>

definition execute_send ::
  "Request \<Rightarrow> string \<Rightarrow> string \<Rightarrow> body \<Rightarrow> world \<Rightarrow> (error + http_response) \<times> world" where
  "execute_send r url contentType b w =
     (let request = \<lparr>req_method = ''POST'', req_url = url, req_header = Map.empty,
                     req_body = b, req_ctx = None, req_basic_auth = None\<rparr>;
          request = request\<lparr>req_header := (req_header request)(''Content-Type'' \<mapsto> contentType)\<rparr>;
          request = (case ctx r of
                       None \<Rightarrow> request
                     | Some c \<Rightarrow> request\<lparr>req_ctx := Some c\<rparr>);
          request = (case response r of
                       None \<Rightarrow> request
                     | Some resp \<Rightarrow>
                         (if map_of resp ''mode'' = Some (GStr ''binary'')
                          then request\<lparr>req_header := (req_header request)(''X-Optidash-Binary'' \<mapsto> ''1'')\<rparr>
                          else request));
          request = request\<lparr>req_basic_auth := Some (Key (client r), [])\<rparr>
      in http_Do (http r) request w)"

text \<open>
  The multipart branch once the input is a reader: the part \<open>file\<close> (with the empty
  file name) takes the input's bytes, the field \<open>data\<close> the JSON text. The writer
  writes to a buffer in memory, so only reading the input can fail.
\<close>

definition execute_upload ::
  "env \<Rightarrow> Request \<Rightarrow> string \<Rightarrow> reader \<Rightarrow> world \<Rightarrow> (error + http_response) \<times> world" where
  "execute_upload e r pb file w =
     (case rd_err file of
        Some err \<Rightarrow> (Inl err, w)
      | None \<Rightarrow>
          execute_send r (apiURL @ ''/upload'')
            (''multipart/form-data; boundary='' @ boundary e)
            (Multipart (boundary e) [FormFile ''file'' [] (rd_data file), FormField ''data'' pb])
            w)"

definition execute :: "env \<Rightarrow> Request \<Rightarrow> world \<Rightarrow> (error + http_response) \<times> world" where
  "execute e r w =
     (case json_Marshal e (execute_params r) of
        Inl err \<Rightarrow> (Inl err, w)
      | Inr pb \<Rightarrow>
          (if source r = fetchSource then
             execute_send r (apiURL @ ''/fetch'') ''application/json'' (Bytes pb) w
           else if source r = readerSource \<or> source r = pathSource then
             (if source r = readerSource then
                (case reader r of
                   None \<Rightarrow> (Inl Panic, w)
                 | Some file \<Rightarrow> execute_upload e r pb file w)
              else
                (case OpenFile_rdonly e (location r) w of
                   (Inl err, w1) \<Rightarrow> (Inl err, w1)
                 | (Inr fs, w1) \<Rightarrow>
                     (case execute_upload e r pb fs w1 of
                        (res, w2) \<Rightarrow> (res, File_Close (location r) w2))))
           else (Inl ErrInvalidSourceType, w)))"

section \<open>Terminal operations\<close>

text \<open>
  A Go return \<open>(nil, err)\<close> is \<open>Inl err\<close>; \<open>(result, nil)\<close> is \<open>Inr result\<close>, where
  the result is a pointer to a tree and may itself be nil (\<open>None\<close>).
\<close>

definition ToJSON :: "env \<Rightarrow> Request \<Rightarrow> world \<Rightarrow> (error + jvalue option) \<times> world" where
  "ToJSON e r w =
     (case execute e r w of
        (Inl err, w1) \<Rightarrow> (Inl err, w1)
      | (Inr resp, w1) \<Rightarrow>
          (case ReadAll (resp_body resp) of
             Inl err \<Rightarrow> (Inl err, w1)
           | Inr b \<Rightarrow>
               (case Parse e b of
                  Inl err \<Rightarrow> (Inl err, w1)
                | Inr result \<Rightarrow>
                    (case result of
                       None \<Rightarrow> (Inr result, w1)
                     | Some v \<Rightarrow>
                         (case Value_Get v ''success'' of
                            None \<Rightarrow> (Inl ErrNoSuccess, w1)
                          | Some val \<Rightarrow>
                              (case Value_Bool val of
                                 None \<Rightarrow> (Inl ErrNoSuccess, w1)
                               | Some success \<Rightarrow>
                                   (if \<not> success then
                                      (case Value_Get v ''code'' of
                                         None \<Rightarrow> (Inl ErrNoSuccess, w1)
                                       | Some codeValue \<Rightarrow>
                                           (case Value_Get v ''message'' of
                                              None \<Rightarrow> (Inl ErrNoSuccess, w1)
                                            | Some messageValue \<Rightarrow>
                                                (Inl (OptidashError
                                                   (case Value_Int codeValue of
                                                      Some code \<Rightarrow> code | None \<Rightarrow> 0)
                                                   (case Value_StringBytes messageValue of
                                                      Some message \<Rightarrow> message | None \<Rightarrow> [])),
                                                 w1)))
                                    else (Inr result, w1))))))))"

text \<open>
  The function \<open>ToReader\<close> defers: the body is closed unless \<open>succeeded\<close> was set.
  A response that the client returned has a body (\<open>resp.Body != nil\<close>).
\<close>

definition ToReader_deferred :: "bool \<Rightarrow> http_response option \<Rightarrow> world \<Rightarrow> world" where
  "ToReader_deferred succeeded resp w =
     (if \<not> succeeded \<and> resp \<noteq> None then Body_Close w else w)"

text \<open>
  \<open>ToReader\<close> returns the new state of the builder too: it overwrites the field
  \<open>response\<close>. \<open>Inl err\<close> is the Go return \<open>(nil, nil, err)\<close>, \<open>Inr (meta, body)\<close> is
  \<open>(meta, resp.Body, nil)\<close>.
\<close>

definition ToReader ::
  "env \<Rightarrow> Request \<Rightarrow> world \<Rightarrow> (error + (jvalue option \<times> reader)) \<times> Request \<times> world" where
  "ToReader e r w =
     (if webhook r \<noteq> None then (Inl ErrBinaryWebhook, r, w)
      else if store r \<noteq> None then (Inl ErrBinaryStorage, r, w)
      else
        (let r1 = r\<lparr>response := Some [(''mode'', GStr ''binary'')]\<rparr> in
         case execute e r1 w of
           (Inl err, w1) \<Rightarrow> (Inl err, r1, ToReader_deferred False None w1)
         | (Inr resp, w1) \<Rightarrow>
             (let sm = Header_Get (resp_header resp) ''X-Optidash-Meta'' in
              case (if sm \<noteq> [] then Parse e sm else Inr None) of
                Inl err \<Rightarrow> (Inl err, r1, ToReader_deferred False (Some resp) w1)
              | Inr meta \<Rightarrow>
                  (case meta of
                     None \<Rightarrow>
                       (Inr (meta, resp_body resp), r1, ToReader_deferred True (Some resp) w1)
                   | Some m \<Rightarrow>
                       (case Value_Get m ''success'' of
                          None \<Rightarrow> (Inl ErrNoSuccess, r1, ToReader_deferred False (Some resp) w1)
                        | Some successValue \<Rightarrow>
                            (case Value_Bool successValue of
                               None \<Rightarrow>
                                 (Inl ErrNoSuccess, r1, ToReader_deferred False (Some resp) w1)
                             | Some success \<Rightarrow>
                                 (if \<not> success then
                                    (case Value_Get m ''code'' of
                                       None \<Rightarrow>
                                         (Inl ErrNoSuccess, r1,
                                          ToReader_deferred False (Some resp) w1)
                                     | Some codeValue \<Rightarrow>
                                         (case Value_Get m ''message'' of
                                            None \<Rightarrow>
                                              (Inl ErrNoSuccess, r1,
                                               ToReader_deferred False (Some resp) w1)
                                          | Some messageValue \<Rightarrow>
                                              (Inl (OptidashError
                                                 (case Value_Int codeValue of
                                                    Some code \<Rightarrow> code | None \<Rightarrow> 0)
                                                 (case Value_StringBytes messageValue of
                                                    Some message \<Rightarrow> message | None \<Rightarrow> [])),
                                               r1, ToReader_deferred False (Some resp) w1)))
                                  else
                                    (Inr (meta, resp_body resp), r1,
                                     ToReader_deferred True (Some resp) w1))))))))"

text \<open>
  \<open>ToFile\<close>: the file is closed by the deferred \<open>file.Close()\<close> on every return
  after it was opened. The source has no call that closes \<open>reader\<close>.
\<close>

definition ToFile ::
  "env \<Rightarrow> Request \<Rightarrow> string \<Rightarrow> nat \<Rightarrow> world \<Rightarrow> (error + jvalue option) \<times> Request \<times> world" where
  "ToFile e r input perm w =
     (case ToReader e r w of
        (Inl err, r1, w1) \<Rightarrow> (Inl err, r1, w1)
      | (Inr (meta, rd), r1, w1) \<Rightarrow>
          (case OpenFile_create e input perm w1 of
             (Some err, w2) \<Rightarrow> (Inl err, r1, w2)
           | (None, w2) \<Rightarrow>
               (case Copy_to_file input rd w2 of
                  (Some err, w3) \<Rightarrow> (Inl err, r1, File_Close input w3)
                | (None, w3) \<Rightarrow> (Inr meta, r1, File_Close input w3))))"

text \<open>\<open>CopyTo\<close> returns the writer as the copy left it.\<close>

definition CopyTo ::
  "env \<Rightarrow> Request \<Rightarrow> writer \<Rightarrow> world \<Rightarrow> (error + jvalue option) \<times> Request \<times> writer \<times> world" where
  "CopyTo e r input w =
     (case ToReader e r w of
        (Inl err, r1, w1) \<Rightarrow> (Inl err, r1, input, w1)
      | (Inr (meta, rd), r1, w1) \<Rightarrow>
          (case io_Copy input rd of
             (Some err, input1) \<Rightarrow> (Inl err, r1, input1, w1)
           | (None, input1) \<Rightarrow> (Inr meta, r1, input1, w1)))"

section \<open>Example values\<close>

text \<open>
  A transport that answers every request with the given headers and body; a parser
  that knows the trees of a few texts, as \<open>fastjson\<close> reads them (the text \<open>null\<close> is
  a tree of the kind null, behind a pointer that is not nil); a stand-in for
  \<open>json.Marshal\<close> that writes the member \<open>url\<close> only; a system that refuses to open
  one path, fails to read another, and runs with the umask 022.
\<close>

definition example_http :: "(string \<rightharpoonup> string) \<Rightarrow> reader \<Rightarrow> http_client" where
  "example_http hdr bd = (\<lambda>req. Inr \<lparr>resp_header = hdr, resp_body = bd\<rparr>)"

definition text_success_foo :: string where
  \<open>text_success_foo = ''{"success": true, "foo": 1}''\<close>

definition text_failure :: string where
  \<open>text_failure = ''{"success": false, "code": 42, "message": "bad input"}''\<close>

definition text_failure_no_message :: string where
  \<open>text_failure_no_message = ''{"success": false, "code": 42}''\<close>

definition text_no_success :: string where
  \<open>text_no_success = ''{"foo": 1}''\<close>

definition text_success_not_bool :: string where
  \<open>text_success_not_bool = ''{"success": "yes"}''\<close>

definition text_failure_big_code :: string where
  \<open>text_failure_big_code
     = ''{"success": false, "code": 9223372036854775808, "message": "bad input"}''\<close>

definition text_failure_string_code :: string where
  \<open>text_failure_string_code = ''{"success": false, "code": "42", "message": 7}''\<close>

definition text_null :: string where
  "text_null = ''null''"

definition example_Parse :: "string \<Rightarrow> error + jvalue option" where
  "example_Parse s =
     (if s = text_success_foo
        then Inr (Some (VObject [(''success'', VBool True), (''foo'', VInt 1)]))
      else if s = text_failure
        then Inr (Some (VObject [(''success'', VBool False), (''code'', VInt 42),
                                 (''message'', VString ''bad input'')]))
      else if s = text_failure_no_message
        then Inr (Some (VObject [(''success'', VBool False), (''code'', VInt 42)]))
      else if s = text_no_success
        then Inr (Some (VObject [(''foo'', VInt 1)]))
      else if s = text_success_not_bool
        then Inr (Some (VObject [(''success'', VString ''yes'')]))
      else if s = text_failure_big_code
        then Inr (Some (VObject [(''success'', VBool False),
                                 (''code'', VInt 9223372036854775808),
                                 (''message'', VString ''bad input'')]))
      else if s = text_failure_string_code
        then Inr (Some (VObject [(''success'', VBool False), (''code'', VString ''42''),
                                 (''message'', VInt 7)]))
      else if s = text_null
        then Inr (Some VNull)
      else Inl (OtherError ''cannot parse JSON''))"

definition example_Marshal :: "(string \<rightharpoonup> gval) \<Rightarrow> error + string" where
  \<open>example_Marshal params =
     (case params ''url'' of
        Some (GStr u) \<Rightarrow> Inr (''{"url":"'' @ u @ ''"}'')
      | _ \<Rightarrow> Inr ''{}'')\<close>

definition example_env :: env where
  "example_env =
     \<lparr>json_Marshal = example_Marshal, Parse = example_Parse, boundary = ''b0'',
      open_deny = (\<lambda>path. if path = ''/denied/output.png''
                           then Some (OtherError ''permission denied'') else None),
      read_error = (\<lambda>path. if path = ''path/to/broken.jpg''
                            then Some (OtherError ''input/output error'') else None),
      umask = 18\<rparr>"

definition example_world :: world where
  "example_world = \<lparr>sent = [], files = Map.empty, open_files = [], body_closed = False\<rparr>"

definition example_client :: "http_client \<Rightarrow> Client" where
  "example_client h = \<lparr>Key = ''your-api-key'', Client = h\<rparr>"

definition example_url :: string where
  "example_url = ''https://www.website.com/image.jpg''"

definition bytes_reader :: "string \<Rightarrow> reader" where
  "bytes_reader bs = \<lparr>rd_data = bs, rd_err = None\<rparr>"

text \<open>A JSON answer with the given body, and a binary answer: the image bytes \<open>PNG\<close>
  with the given text in the header \<open>X-Optidash-Meta\<close>.\<close>

definition json_server :: "string \<Rightarrow> Client" where
  "json_server b = example_client (example_http Map.empty (bytes_reader b))"

definition binary_server :: "string \<Rightarrow> Client" where
  "binary_server meta =
     example_client (example_http [''X-Optidash-Meta'' \<mapsto> meta] (bytes_reader ''PNG''))"

text \<open>What the stand-in for \<open>json.Marshal\<close> writes for a fetch of \<open>example_url\<close>.\<close>

definition example_payload :: string where
  \<open>example_payload = ''{"url":"https://www.website.com/image.jpg"}''\<close>

section \<open>Facts about the builder and the examples\<close>

lemma Request_literal_fields:
  "source (Request_literal c src rd loc) = src" "reader (Request_literal c src rd loc) = rd"
  "location (Request_literal c src rd loc) = loc" "http (Request_literal c src rd loc) = Client c"
  by (simp_all add: Request_literal_def)

section \<open>The params map\<close>

lemma put_step_apply:
  "put_step name bag params k =
     (if k = name then (case bag of None \<Rightarrow> params k | Some p \<Rightarrow> Some (GMap p)) else params k)"
  by (cases bag) (simp_all add: put_step_def)

text \<open>What the params map holds under each key that \<open>execute\<close> writes.\<close>

lemma execute_params_other_steps:
  "execute_params r ''resize'' = map_option GMap (resize r)"
  "execute_params r ''scale'' = map_option GMap (scale r)"
  "execute_params r ''crop'' = map_option GMap (crop r)"
  "execute_params r ''watermark'' = map_option GMap (watermark r)"
  "execute_params r ''mask'' = map_option GMap (mask r)"
  "execute_params r ''stylize'' = map_option GMap (stylize r)"
  "execute_params r ''adjust'' = map_option GMap (adjust r)"
  "execute_params r ''auto'' = map_option GMap (auto r)"
  "execute_params r ''border'' = map_option GMap (border r)"
  "execute_params r ''padding'' = map_option GMap (padding r)"
  "execute_params r ''store'' = map_option GMap (store r)"
  "execute_params r ''output'' = map_option GMap (output' r)"
  "execute_params r ''webhook'' = map_option GMap (webhook r)"
  "execute_params r ''response'' = map_option GMap (response r)"
  "execute_params r ''cdn'' = map_option GMap (cdn r)"
  "execute_params r ''url'' = (if source r = fetchSource then Some (GStr (location r)) else None)"
  by (simp_all add: execute_params_def Let_def put_step_apply split: option.splits)

text \<open>
  C1 (the code falls short of it). The claim asks that every step that is set appears
  in the payload. The map that \<open>execute\<close> marshals never has the keys \<open>optimize\<close> and
  \<open>flip\<close>: after \<open>Optimize\<close> stored a bag in the builder (and likewise \<open>Flip\<close>), the
  bag is in the field and the key is absent from the params.
\<close>

theorem optimize_and_flip_not_serialized:
  "optimize (Optimize (Some bag) r) = Some bag
   \<and> execute_params (Optimize (Some bag) r) ''optimize'' = None
   \<and> flip (Flip (Some bag) r) = Some bag
   \<and> execute_params (Flip (Some bag) r) ''flip'' = None"
  by (simp add: Optimize_def Flip_def execute_params_def Let_def put_step_apply)

section \<open>Facts about execute\<close>

lemma execute_send_request:
  "\<exists>req. execute_send r url ct b w = (http r req, w\<lparr>sent := sent w @ [req]\<rparr>)
     \<and> req_method req = ''POST'' \<and> req_url req = url
     \<and> req_header req ''Content-Type'' = Some ct \<and> req_body req = b"
  unfolding execute_send_def Let_def http_Do_def
  by (rule exI, intro conjI, rule refl) (simp_all split: option.splits)

lemma execute_send_body_closed:
  "body_closed (snd (execute_send r url ct b w)) = body_closed w"
  by (simp add: execute_send_def Let_def http_Do_def)

lemma execute_upload_body_closed:
  "body_closed (snd (execute_upload e r pb file w)) = body_closed w"
  by (simp add: execute_upload_def execute_send_body_closed split: option.splits)

lemma execute_body_closed:
  "body_closed (snd (execute e r w)) = body_closed w"
  by (simp add: execute_def OpenFile_rdonly_def File_Close_def split_beta
        execute_send_body_closed execute_upload_body_closed
        split: sum.splits option.splits)

lemma example_Marshal_total: "\<exists>pb. example_Marshal m = Inr pb"
  by (simp add: example_Marshal_def split: option.splits gval.splits)

lemma execute_fetch_example:
  assumes "source r = fetchSource" and "http r = example_http hdr bd"
  shows "fst (execute example_env r w) = Inr \<lparr>resp_header = hdr, resp_body = bd\<rparr>"
proof -
  obtain pb where "example_Marshal (execute_params r) = Inr pb"
    using example_Marshal_total by blast
  then show ?thesis
    using assms
    by (simp add: execute_def example_env_def execute_send_def Let_def http_Do_def
          example_http_def)
qed

section \<open>Binary mode against webhook and store\<close>

text \<open>
  C2 (amended). On a builder whose webhook step is set, \<open>ToReader\<close>, \<open>ToFile\<close> and
  \<open>CopyTo\<close> return \<open>ErrBinaryWebhook\<close>; on a builder whose store step is set and
  whose webhook step is not, they return \<open>ErrBinaryStorage\<close>. In both cases the
  builder, the caller's writer and the world come back as they were, so the list
  \<open>sent\<close> of requests handed to the transport has not grown: no HTTP request is made.
\<close>

theorem binary_mode_rejects_webhook_and_store:
  "(webhook r \<noteq> None \<longrightarrow>
      ToReader e r w = (Inl ErrBinaryWebhook, r, w)
    \<and> ToFile e r path perm w = (Inl ErrBinaryWebhook, r, w)
    \<and> CopyTo e r dst w = (Inl ErrBinaryWebhook, r, dst, w))
 \<and> (webhook r = None \<and> store r \<noteq> None \<longrightarrow>
      ToReader e r w = (Inl ErrBinaryStorage, r, w)
    \<and> ToFile e r path perm w = (Inl ErrBinaryStorage, r, w)
    \<and> CopyTo e r dst w = (Inl ErrBinaryStorage, r, dst, w))"
  by (simp add: ToReader_def ToFile_def CopyTo_def)

text \<open>The theorem at a fetch builder with \<open>Webhook\<close> set, and at one with \<open>Store\<close> set.\<close>

theorem binary_mode_rejects_webhook_and_store_witness:
  "ToReader example_env (Webhook (Some []) (Fetch (binary_server text_success_foo) example_url))
       example_world
     = (Inl ErrBinaryWebhook,
        Webhook (Some []) (Fetch (binary_server text_success_foo) example_url), example_world)
   \<and> CopyTo example_env (Store (Some []) (Fetch (binary_server text_success_foo) example_url))
         \<lparr>wr_data = [], wr_err = None\<rparr> example_world
     = (Inl ErrBinaryStorage,
        Store (Some []) (Fetch (binary_server text_success_foo) example_url),
        \<lparr>wr_data = [], wr_err = None\<rparr>, example_world)"
  using binary_mode_rejects_webhook_and_store
          [of "Webhook (Some []) (Fetch (binary_server text_success_foo) example_url)"
              example_env example_world "[]" 0 "\<lparr>wr_data = [], wr_err = None\<rparr>"]
        binary_mode_rejects_webhook_and_store
          [of "Store (Some []) (Fetch (binary_server text_success_foo) example_url)"
              example_env example_world "[]" 0 "\<lparr>wr_data = [], wr_err = None\<rparr>"]
  by (simp add: Webhook_def Store_def Fetch_def Request_literal_def)

text \<open>
  C2 as stated fails where both steps are set: the store step is set, and the error is
  \<open>ErrBinaryWebhook\<close>, since \<open>ToReader\<close> looks at the webhook first.
\<close>

theorem store_with_webhook_counterexample:
  "store (Store (Some []) (Webhook (Some []) (Fetch (binary_server text_success_foo) example_url)))
     \<noteq> None
   \<and> fst (ToReader example_env
         (Store (Some []) (Webhook (Some []) (Fetch (binary_server text_success_foo) example_url)))
         example_world)
     \<noteq> Inl ErrBinaryStorage"
  by (simp add: ToReader_def Webhook_def Store_def Fetch_def Request_literal_def)

section \<open>What the terminal operations do with a parsed tree\<close>

lemma sources_distinct:
  "readerSource \<noteq> pathSource" "readerSource \<noteq> fetchSource" "pathSource \<noteq> fetchSource"
  by (simp_all add: readerSource_def pathSource_def fetchSource_def)


lemma Fetch_fields:
  "source (Fetch c u) = fetchSource" "http (Fetch c u) = Client c"
  "webhook (Fetch c u) = None" "store (Fetch c u) = None"
  by (simp_all add: Fetch_def Request_literal_def)

lemma execute_json_server:
  assumes "json_Marshal e = example_Marshal"
  shows "fst (execute e (Fetch (json_server b) u) w)
           = Inr \<lparr>resp_header = Map.empty, resp_body = bytes_reader b\<rparr>"
proof -
  obtain pb where "example_Marshal (execute_params (Fetch (json_server b) u)) = Inr pb"
    using example_Marshal_total by blast
  then show ?thesis
    using assms
    by (simp add: execute_def Fetch_fields execute_send_def Let_def http_Do_def
          json_server_def example_client_def example_http_def)
qed

lemma execute_binary_server:
  assumes "json_Marshal e = example_Marshal"
  shows "fst (execute e ((Fetch (binary_server m) u)\<lparr>response := rs\<rparr>) w)
           = Inr \<lparr>resp_header = [''X-Optidash-Meta'' \<mapsto> m], resp_body = bytes_reader ''PNG''\<rparr>"
proof -
  obtain pb where
    "example_Marshal (execute_params ((Fetch (binary_server m) u)\<lparr>response := rs\<rparr>)) = Inr pb"
    using example_Marshal_total by blast
  then show ?thesis
    using assms
    by (simp add: execute_def Fetch_fields execute_send_def Let_def http_Do_def
          binary_server_def example_client_def example_http_def)
qed

lemma example_env_Marshal: "json_Marshal example_env = example_Marshal"
  by (simp add: example_env_def)

lemma example_env_Parse: "Parse example_env = example_Parse"
  by (simp add: example_env_def)

lemma example_texts_distinct:
  "text_success_foo \<noteq> []" "text_failure \<noteq> []" "text_failure_no_message \<noteq> []"
  "text_no_success \<noteq> []" "text_success_not_bool \<noteq> []"
  "text_failure_big_code \<noteq> []" "text_failure_string_code \<noteq> []"
  by (simp_all add: text_success_foo_def text_failure_def text_failure_no_message_def
        text_no_success_def text_success_not_bool_def text_failure_big_code_def
        text_failure_string_code_def)

lemma example_Parse_values:
  "example_Parse text_success_foo
     = Inr (Some (VObject [(''success'', VBool True), (''foo'', VInt 1)]))"
  "example_Parse text_failure
     = Inr (Some (VObject [(''success'', VBool False), (''code'', VInt 42),
                           (''message'', VString ''bad input'')]))"
  "example_Parse text_failure_no_message
     = Inr (Some (VObject [(''success'', VBool False), (''code'', VInt 42)]))"
  "example_Parse text_no_success = Inr (Some (VObject [(''foo'', VInt 1)]))"
  "example_Parse text_success_not_bool = Inr (Some (VObject [(''success'', VString ''yes'')]))"
  "example_Parse text_failure_big_code
     = Inr (Some (VObject [(''success'', VBool False), (''code'', VInt 9223372036854775808),
                           (''message'', VString ''bad input'')]))"
  "example_Parse text_failure_string_code
     = Inr (Some (VObject [(''success'', VBool False), (''code'', VString ''42''),
                           (''message'', VInt 7)]))"
  "example_Parse text_null = Inr (Some VNull)"
  by (simp_all add: example_Parse_def text_success_foo_def text_failure_def
        text_failure_no_message_def text_no_success_def text_success_not_bool_def
        text_failure_big_code_def text_failure_string_code_def text_null_def)

lemma ToJSON_parsed:
  assumes "fst (execute e r w) = Inr resp" and "ReadAll (resp_body resp) = Inr b"
    and "Parse e b = Inr (Some v)"
  shows "fst (ToJSON e r w) =
     (case Value_Get v ''success'' of
        None \<Rightarrow> Inl ErrNoSuccess
      | Some val \<Rightarrow>
          (case Value_Bool val of
             None \<Rightarrow> Inl ErrNoSuccess
           | Some success \<Rightarrow>
               (if \<not> success then
                  (case Value_Get v ''code'' of
                     None \<Rightarrow> Inl ErrNoSuccess
                   | Some codeValue \<Rightarrow>
                       (case Value_Get v ''message'' of
                          None \<Rightarrow> Inl ErrNoSuccess
                        | Some messageValue \<Rightarrow>
                            Inl (OptidashError
                              (case Value_Int codeValue of Some code \<Rightarrow> code | None \<Rightarrow> 0)
                              (case Value_StringBytes messageValue of
                                 Some message \<Rightarrow> message | None \<Rightarrow> []))))
                else Inr (Some v))))"
proof -
  obtain w1 where "execute e r w = (Inr resp, w1)"
    using assms(1) by (cases "execute e r w") simp
  then show ?thesis
    using assms(2,3) by (simp add: ToJSON_def split: option.splits)
qed

lemma ToReader_parsed:
  assumes "webhook r = None" and "store r = None"
    and "fst (execute e (r\<lparr>response := Some [(''mode'', GStr ''binary'')]\<rparr>) w) = Inr resp"
    and "Header_Get (resp_header resp) ''X-Optidash-Meta'' \<noteq> []"
    and "Parse e (Header_Get (resp_header resp) ''X-Optidash-Meta'') = Inr (Some v)"
  shows "fst (ToReader e r w) =
     (case Value_Get v ''success'' of
        None \<Rightarrow> Inl ErrNoSuccess
      | Some val \<Rightarrow>
          (case Value_Bool val of
             None \<Rightarrow> Inl ErrNoSuccess
           | Some success \<Rightarrow>
               (if \<not> success then
                  (case Value_Get v ''code'' of
                     None \<Rightarrow> Inl ErrNoSuccess
                   | Some codeValue \<Rightarrow>
                       (case Value_Get v ''message'' of
                          None \<Rightarrow> Inl ErrNoSuccess
                        | Some messageValue \<Rightarrow>
                            Inl (OptidashError
                              (case Value_Int codeValue of Some code \<Rightarrow> code | None \<Rightarrow> 0)
                              (case Value_StringBytes messageValue of
                                 Some message \<Rightarrow> message | None \<Rightarrow> []))))
                else Inr (Some v, resp_body resp))))"
proof -
  obtain w1 where
    "execute e (r\<lparr>response := Some [(''mode'', GStr ''binary'')]\<rparr>) w = (Inr resp, w1)"
    using assms(3)
    by (cases "execute e (r\<lparr>response := Some [(''mode'', GStr ''binary'')]\<rparr>) w") simp
  then show ?thesis
    using assms(1,2,4,5) by (simp add: ToReader_def Let_def split: option.splits)
qed

section \<open>The success flag\<close>

text \<open>
  C7. Let the tree that was parsed be there (the pointer is not nil): in \<open>ToJSON\<close> the
  tree of the body that was read, in \<open>ToReader\<close> the tree of the header
  \<open>X-Optidash-Meta\<close>, which is not empty. If the tree has no member \<open>success\<close>, or
  has one that \<open>Value.Bool\<close> does not accept, the operation returns \<open>ErrNoSuccess\<close>
  as an error value.
\<close>

theorem missing_success_is_ErrNoSuccess:
  assumes "Value_Get v ''success'' = None
           \<or> (\<exists>sv. Value_Get v ''success'' = Some sv \<and> Value_Bool sv = None)"
  shows
    "(fst (execute e r w) = Inr resp \<and> ReadAll (resp_body resp) = Inr b
        \<and> Parse e b = Inr (Some v)
      \<longrightarrow> fst (ToJSON e r w) = Inl ErrNoSuccess)
   \<and> (webhook r = None \<and> store r = None
        \<and> fst (execute e (r\<lparr>response := Some [(''mode'', GStr ''binary'')]\<rparr>) w) = Inr resp
        \<and> Header_Get (resp_header resp) ''X-Optidash-Meta'' \<noteq> []
        \<and> Parse e (Header_Get (resp_header resp) ''X-Optidash-Meta'') = Inr (Some v)
      \<longrightarrow> fst (ToReader e r w) = Inl ErrNoSuccess)"
  using assms ToJSON_parsed [of e r w resp b v] ToReader_parsed [of r e w resp v]
  by auto

text \<open>A JSON body without the member, and a header whose \<open>success\<close> is a string.\<close>

theorem missing_success_is_ErrNoSuccess_witness:
  "fst (ToJSON example_env (Fetch (json_server text_no_success) example_url) example_world)
     = Inl ErrNoSuccess
   \<and> fst (ToReader example_env (Fetch (binary_server text_success_not_bool) example_url)
           example_world)
     = Inl ErrNoSuccess"
  using missing_success_is_ErrNoSuccess
          [of "VObject [(''foo'', VInt 1)]" example_env
              "Fetch (json_server text_no_success) example_url" example_world
              "\<lparr>resp_header = Map.empty, resp_body = bytes_reader text_no_success\<rparr>"
              text_no_success]
        missing_success_is_ErrNoSuccess
          [of "VObject [(''success'', VString ''yes'')]" example_env
              "Fetch (binary_server text_success_not_bool) example_url" example_world
              "\<lparr>resp_header = [''X-Optidash-Meta'' \<mapsto> text_success_not_bool],
                resp_body = bytes_reader ''PNG''\<rparr>"
              text_success_not_bool]
  by (simp add: execute_json_server execute_binary_server example_env_Marshal
        example_env_Parse example_Parse_values example_texts_distinct Fetch_fields
        ReadAll_def bytes_reader_def Header_Get_def)

text \<open>
  C6 (amended). Let the parsed tree (of the body in \<open>ToJSON\<close>, of the header in
  \<open>ToReader\<close>) have \<open>success\<close> equal to false. If it has a member \<open>code\<close> and a
  member \<open>message\<close>, the operation returns no metadata (\<open>Inl\<close>) and the error
  \<open>OptidashError\<close> whose code is the member \<open>code\<close> where \<open>Value.Int\<close> reads it (a
  number that is an integer of Go's \<open>int\<close>) and 0 where it does not, and whose message
  is the member \<open>message\<close> where it is a string and the empty string where it is not.
  If \<open>code\<close> or \<open>message\<close> is absent, the operation returns \<open>ErrNoSuccess\<close>.
\<close>

theorem failure_envelope_is_OptidashError:
  assumes "Value_Get v ''success'' = Some sv" and "Value_Bool sv = Some False"
  shows
    "(fst (execute e r w) = Inr resp \<and> ReadAll (resp_body resp) = Inr b
        \<and> Parse e b = Inr (Some v)
      \<longrightarrow> (Value_Get v ''code'' = Some cv \<and> Value_Get v ''message'' = Some mv
            \<longrightarrow> fst (ToJSON e r w)
                  = Inl (OptidashError
                           (case Value_Int cv of Some code \<Rightarrow> code | None \<Rightarrow> 0)
                           (case Value_StringBytes mv of
                              Some message \<Rightarrow> message | None \<Rightarrow> [])))
          \<and> (Value_Get v ''code'' = None \<or> Value_Get v ''message'' = None
            \<longrightarrow> fst (ToJSON e r w) = Inl ErrNoSuccess))
   \<and> (webhook r = None \<and> store r = None
        \<and> fst (execute e (r\<lparr>response := Some [(''mode'', GStr ''binary'')]\<rparr>) w) = Inr resp
        \<and> Header_Get (resp_header resp) ''X-Optidash-Meta'' \<noteq> []
        \<and> Parse e (Header_Get (resp_header resp) ''X-Optidash-Meta'') = Inr (Some v)
      \<longrightarrow> (Value_Get v ''code'' = Some cv \<and> Value_Get v ''message'' = Some mv
            \<longrightarrow> fst (ToReader e r w)
                  = Inl (OptidashError
                           (case Value_Int cv of Some code \<Rightarrow> code | None \<Rightarrow> 0)
                           (case Value_StringBytes mv of
                              Some message \<Rightarrow> message | None \<Rightarrow> [])))
          \<and> (Value_Get v ''code'' = None \<or> Value_Get v ''message'' = None
            \<longrightarrow> fst (ToReader e r w) = Inl ErrNoSuccess))"
  using assms ToJSON_parsed [of e r w resp b v] ToReader_parsed [of r e w resp v]
  by (cases "Value_Get v ''code''"; cases "Value_Get v ''message''") simp_all

text \<open>Code 42 and message \<open>bad input\<close>, in a body and in the header; a body without
  the message; a body whose code is a string and whose message is a number.\<close>

theorem failure_envelope_is_OptidashError_witness:
  "fst (ToJSON example_env (Fetch (json_server text_failure) example_url) example_world)
     = Inl (OptidashError 42 ''bad input'')
   \<and> fst (ToReader example_env (Fetch (binary_server text_failure) example_url) example_world)
     = Inl (OptidashError 42 ''bad input'')
   \<and> fst (ToJSON example_env (Fetch (json_server text_failure_no_message) example_url)
           example_world)
     = Inl ErrNoSuccess
   \<and> fst (ToJSON example_env (Fetch (json_server text_failure_string_code) example_url)
           example_world)
     = Inl (OptidashError 0 [])"
  using failure_envelope_is_OptidashError
          [where v = "VObject [(''success'', VBool False), (''code'', VInt 42),
                               (''message'', VString ''bad input'')]"
             and sv = "VBool False" and e = example_env
             and r = "Fetch (json_server text_failure) example_url" and w = example_world
             and resp = "\<lparr>resp_header = Map.empty, resp_body = bytes_reader text_failure\<rparr>"
             and b = text_failure and cv = "VInt 42" and mv = "VString ''bad input''"]
        failure_envelope_is_OptidashError
          [where v = "VObject [(''success'', VBool False), (''code'', VInt 42),
                               (''message'', VString ''bad input'')]"
             and sv = "VBool False" and e = example_env
             and r = "Fetch (binary_server text_failure) example_url" and w = example_world
             and resp = "\<lparr>resp_header = [''X-Optidash-Meta'' \<mapsto> text_failure],
                          resp_body = bytes_reader ''PNG''\<rparr>"
             and b = text_failure and cv = "VInt 42" and mv = "VString ''bad input''"]
        failure_envelope_is_OptidashError
          [where v = "VObject [(''success'', VBool False), (''code'', VInt 42)]"
             and sv = "VBool False" and e = example_env
             and r = "Fetch (json_server text_failure_no_message) example_url"
             and w = example_world
             and resp = "\<lparr>resp_header = Map.empty,
                          resp_body = bytes_reader text_failure_no_message\<rparr>"
             and b = text_failure_no_message and cv = "VInt 42"
             and mv = "VString ''bad input''"]
        failure_envelope_is_OptidashError
          [where v = "VObject [(''success'', VBool False), (''code'', VString ''42''),
                               (''message'', VInt 7)]"
             and sv = "VBool False" and e = example_env
             and r = "Fetch (json_server text_failure_string_code) example_url"
             and w = example_world
             and resp = "\<lparr>resp_header = Map.empty,
                          resp_body = bytes_reader text_failure_string_code\<rparr>"
             and b = text_failure_string_code and cv = "VString ''42''" and mv = "VInt 7"]
  by (simp add: execute_json_server execute_binary_server example_env_Marshal
        example_env_Parse example_Parse_values example_texts_distinct Fetch_fields
        ReadAll_def bytes_reader_def Header_Get_def)

text \<open>
  C6 as stated fails where a field is present and cannot be read: the body has
  \<open>success\<close> false, the message \<open>bad input\<close> and the integer code \<open>2 ^ 63\<close>, which
  is no Go \<open>int\<close>; the error carries the code 0, not that integer.
\<close>

theorem failure_big_code_counterexample:
  "example_Parse text_failure_big_code
     = Inr (Some (VObject [(''success'', VBool False), (''code'', VInt 9223372036854775808),
                           (''message'', VString ''bad input'')]))
   \<and> fst (ToJSON example_env (Fetch (json_server text_failure_big_code) example_url)
           example_world)
       \<noteq> Inl (OptidashError 9223372036854775808 ''bad input'')
   \<and> fst (ToJSON example_env (Fetch (json_server text_failure_big_code) example_url)
           example_world)
       = Inl (OptidashError 0 ''bad input'')"
  using ToJSON_parsed
          [of example_env "Fetch (json_server text_failure_big_code) example_url" example_world
              "\<lparr>resp_header = Map.empty, resp_body = bytes_reader text_failure_big_code\<rparr>"
              text_failure_big_code
              "VObject [(''success'', VBool False), (''code'', VInt 9223372036854775808),
                        (''message'', VString ''bad input'')]"]
  by (simp add: execute_json_server example_env_Marshal
        example_env_Parse example_Parse_values ReadAll_def bytes_reader_def)

lemma ToJSON_nil:
  assumes "fst (execute e r w) = Inr resp" and "ReadAll (resp_body resp) = Inr b"
    and "Parse e b = Inr None"
  shows "fst (ToJSON e r w) = Inr None"
proof -
  obtain w1 where "execute e r w = (Inr resp, w1)"
    using assms(1) by (cases "execute e r w") simp
  then show ?thesis
    using assms(2,3) by (simp add: ToJSON_def)
qed

text \<open>
  C8 (amended). Let \<open>execute\<close> return a response whose body is read without error. If
  the parser returns a tree whose \<open>success\<close> is true, \<open>ToJSON\<close> returns that very
  tree, every member as it was parsed, and no error. If the parser returns no tree at
  all (a nil pointer), \<open>ToJSON\<close> returns nil metadata and no error. A tree of the JSON
  kind null is a tree without the member \<open>success\<close>: the answer is \<open>ErrNoSuccess\<close>.
\<close>

theorem ToJSON_success_returns_tree:
  assumes "fst (execute e r w) = Inr resp" and "ReadAll (resp_body resp) = Inr b"
  shows
    "(Parse e b = Inr (Some v) \<and> Value_Get v ''success'' = Some sv \<and> Value_Bool sv = Some True
      \<longrightarrow> fst (ToJSON e r w) = Inr (Some v))
   \<and> (Parse e b = Inr None \<longrightarrow> fst (ToJSON e r w) = Inr None)
   \<and> (Parse e b = Inr (Some VNull) \<longrightarrow> fst (ToJSON e r w) = Inl ErrNoSuccess)"
  using assms ToJSON_parsed [of e r w resp b v] ToJSON_parsed [of e r w resp b VNull]
    ToJSON_nil [of e r w resp b]
  by auto

text \<open>The body \<open>{"success": true, "foo": 1}\<close> yields a tree with \<open>foo = 1\<close>; with a
  parser that returns nil, the result is nil.\<close>

theorem ToJSON_success_returns_tree_witness:
  "(\<exists>t. fst (ToJSON example_env (Fetch (json_server text_success_foo) example_url) example_world)
          = Inr (Some t)
        \<and> Value_Get t ''success'' = Some (VBool True)
        \<and> Value_Get t ''foo'' = Some (VInt 1))
   \<and> fst (ToJSON (example_env\<lparr>Parse := \<lambda>s. Inr None\<rparr>)
           (Fetch (json_server []) example_url) example_world)
     = Inr None"
  using ToJSON_success_returns_tree
          [of example_env "Fetch (json_server text_success_foo) example_url" example_world
              "\<lparr>resp_header = Map.empty, resp_body = bytes_reader text_success_foo\<rparr>"
              text_success_foo
              "VObject [(''success'', VBool True), (''foo'', VInt 1)]" "VBool True"]
        ToJSON_success_returns_tree
          [of "example_env\<lparr>Parse := \<lambda>s. Inr None\<rparr>"
              "Fetch (json_server []) example_url" example_world
              "\<lparr>resp_header = Map.empty, resp_body = bytes_reader []\<rparr>"
              "[]" VNull VNull]
  by (simp add: execute_json_server example_env_Marshal
        example_env_Parse example_Parse_values example_texts_distinct Fetch_fields
        ReadAll_def bytes_reader_def Header_Get_def)

text \<open>
  C8 as stated fails on the body \<open>null\<close>: its parsed tree is the null tree, and
  \<open>ToJSON\<close> returns \<open>ErrNoSuccess\<close> instead of that tree.
\<close>

theorem ToJSON_null_tree_counterexample:
  "example_Parse text_null = Inr (Some VNull)
   \<and> fst (ToJSON example_env (Fetch (json_server text_null) example_url) example_world)
       \<noteq> Inr (Some VNull)
   \<and> fst (ToJSON example_env (Fetch (json_server text_null) example_url) example_world)
       = Inl ErrNoSuccess"
  using ToJSON_parsed
          [of example_env "Fetch (json_server text_null) example_url" example_world
              "\<lparr>resp_header = Map.empty, resp_body = bytes_reader text_null\<rparr>"
              text_null VNull]
  by (simp add: execute_json_server example_env_Marshal
        example_env_Parse example_Parse_values ReadAll_def bytes_reader_def)

text \<open>
  C10. Let neither webhook nor store be set, and let the exchange in binary mode return
  a response without the header \<open>X-Optidash-Meta\<close>. Then \<open>ToReader\<close> returns nil
  metadata, the body of the response and no error, whatever the parser would say, and
  the body, open before, is still open.
\<close>

theorem no_meta_header_returns_open_body:
  assumes "webhook r = None" and "store r = None"
    and "fst (execute e (r\<lparr>response := Some [(''mode'', GStr ''binary'')]\<rparr>) w) = Inr resp"
    and "resp_header resp ''X-Optidash-Meta'' = None"
    and "\<not> body_closed w"
  shows "fst (ToReader e r w) = Inr (None, resp_body resp)
         \<and> \<not> body_closed (snd (snd (ToReader e r w)))"
proof -
  obtain w1 where ex:
    "execute e (r\<lparr>response := Some [(''mode'', GStr ''binary'')]\<rparr>) w = (Inr resp, w1)"
    using assms(3)
    by (cases "execute e (r\<lparr>response := Some [(''mode'', GStr ''binary'')]\<rparr>) w") simp
  have "body_closed w1 = body_closed w"
    using execute_body_closed [of e "r\<lparr>response := Some [(''mode'', GStr ''binary'')]\<rparr>" w] ex
    by simp
  then show ?thesis
    using assms(1,2,4,5) ex
    by (simp add: ToReader_def Let_def Header_Get_def ToReader_deferred_def)
qed

text \<open>A server that sends the image and no header.\<close>

theorem no_meta_header_returns_open_body_witness:
  "fst (ToReader example_env
         (Fetch (example_client (example_http Map.empty (bytes_reader ''PNG''))) example_url)
         example_world)
     = Inr (None, bytes_reader ''PNG'')
   \<and> \<not> body_closed (snd (snd (ToReader example_env
         (Fetch (example_client (example_http Map.empty (bytes_reader ''PNG''))) example_url)
         example_world)))"
  using no_meta_header_returns_open_body
          [of "Fetch (example_client (example_http Map.empty (bytes_reader ''PNG''))) example_url"
              example_env example_world
              "\<lparr>resp_header = Map.empty, resp_body = bytes_reader ''PNG''\<rparr>"]
        execute_fetch_example
          [of "(Fetch (example_client (example_http Map.empty (bytes_reader ''PNG'')))
                  example_url)\<lparr>response := Some [(''mode'', GStr ''binary'')]\<rparr>"
              Map.empty "bytes_reader ''PNG''" example_world]
  by (simp add: Fetch_fields example_client_def example_world_def)


section \<open>What execute does to the world\<close>

lemma execute_send_sent:
  "\<exists>req. sent (snd (execute_send r url ct b w)) = sent w @ [req]
     \<and> fst (execute_send r url ct b w) = http r req
     \<and> req_method req = ''POST'' \<and> req_url req = url
     \<and> req_header req ''Content-Type'' = Some ct \<and> req_body req = b"
  using execute_send_request [of r url ct b w] by auto

lemma execute_send_files:
  "files (snd (execute_send r url ct b w)) = files w"
  "open_files (snd (execute_send r url ct b w)) = open_files w"
  by (simp_all add: execute_send_def Let_def http_Do_def)

lemma execute_fetch_files:
  assumes "source r = fetchSource"
  shows "files (snd (execute e r w)) = files w" and "open_files (snd (execute e r w)) = open_files w"
  using assms by (simp_all add: execute_def execute_send_files split: sum.splits)

section \<open>The request that execute sends\<close>

lemma execute_fetch_request:
  assumes "json_Marshal e (execute_params r) = Inr pb" and "source r = fetchSource"
  shows "(\<exists>req. sent (snd (execute e r w)) = sent w @ [req]
           \<and> fst (execute e r w) = http r req
           \<and> req_method req = ''POST'' \<and> req_url req = apiURL @ ''/fetch''
           \<and> req_header req ''Content-Type'' = Some (''application/json'')
           \<and> req_body req = Bytes pb)"
proof -
  have "execute e r w
          = execute_send r (apiURL @ ''/fetch'') ''application/json'' (Bytes pb) w"
    using assms by (simp add: execute_def)
  then show ?thesis
    using execute_send_sent [of r "apiURL @ ''/fetch''" "''application/json''" "Bytes pb" w]
    by simp
qed

lemma execute_reader_request:
  assumes "json_Marshal e (execute_params r) = Inr pb" and "source r = readerSource"
    and "reader r = Some rd" and "rd_err rd = None"
  shows "(\<exists>req. sent (snd (execute e r w)) = sent w @ [req]
           \<and> fst (execute e r w) = http r req
           \<and> req_method req = ''POST'' \<and> req_url req = apiURL @ ''/upload''
           \<and> req_header req ''Content-Type'' = Some (''multipart/form-data; boundary='' @ boundary e)
           \<and> req_body req = Multipart (boundary e)
                   [FormFile ''file'' [] (rd_data rd), FormField ''data'' pb])"
proof -
  have "execute e r w
          = execute_send r (apiURL @ ''/upload'')
              (''multipart/form-data; boundary='' @ boundary e)
              (Multipart (boundary e) [FormFile ''file'' [] (rd_data rd), FormField ''data'' pb])
              w"
    using assms by (simp add: execute_def execute_upload_def sources_distinct)
  then show ?thesis
    using execute_send_sent
            [of r "apiURL @ ''/upload''" "''multipart/form-data; boundary='' @ boundary e"
                "Multipart (boundary e) [FormFile ''file'' [] (rd_data rd), FormField ''data'' pb]"
                w]
    by simp
qed

lemma execute_path_request:
  assumes "json_Marshal e (execute_params r) = Inr pb" and "source r = pathSource"
    and "open_deny e (location r) = None" and "files w (location r) = Some f"
    and "read_error e (location r) = None"
  shows "(\<exists>req. sent (snd (execute e r w)) = sent w @ [req]
           \<and> fst (execute e r w) = http r req
           \<and> req_method req = ''POST'' \<and> req_url req = apiURL @ ''/upload''
           \<and> req_header req ''Content-Type'' = Some (''multipart/form-data; boundary='' @ boundary e)
           \<and> req_body req = Multipart (boundary e)
                   [FormFile ''file'' [] (snd f), FormField ''data'' pb])"
proof -
  define w1 where "w1 = w\<lparr>open_files := location r # open_files w\<rparr>"
  define sendres where
    "sendres = execute_send r (apiURL @ ''/upload'')
                 (''multipart/form-data; boundary='' @ boundary e)
                 (Multipart (boundary e) [FormFile ''file'' [] (snd f), FormField ''data'' pb])
                 w1"
  have "execute e r w = (fst sendres, File_Close (location r) (snd sendres))"
    using assms
    by (simp add: execute_def execute_upload_def OpenFile_rdonly_def sources_distinct
          sources_distinct [symmetric] w1_def sendres_def split_beta)
  moreover have "\<exists>req. sent (snd sendres) = sent w1 @ [req]
           \<and> fst sendres = http r req
           \<and> req_method req = ''POST'' \<and> req_url req = apiURL @ ''/upload''
           \<and> req_header req ''Content-Type''
               = Some (''multipart/form-data; boundary='' @ boundary e)
           \<and> req_body req
               = Multipart (boundary e) [FormFile ''file'' [] (snd f), FormField ''data'' pb]"
    unfolding sendres_def by (rule execute_send_sent)
  ultimately show ?thesis
    by (auto simp: File_Close_def w1_def)
qed

text \<open>The early returns of \<open>execute\<close>: each leaves the world as it was.\<close>

lemma execute_marshal_fails:
  assumes "json_Marshal e (execute_params r) = Inl err"
  shows "execute e r w = (Inl err, w)"
  using assms by (simp add: execute_def)

lemma execute_reader_fails:
  assumes "json_Marshal e (execute_params r) = Inr pb" and "source r = readerSource"
    and "reader r = Some rd" and "rd_err rd = Some err"
  shows "execute e r w = (Inl err, w)"
  using assms by (simp add: execute_def execute_upload_def sources_distinct)

lemma execute_open_denied:
  assumes "json_Marshal e (execute_params r) = Inr pb" and "source r = pathSource"
    and "open_deny e (location r) = Some err"
  shows "execute e r w = (Inl err, w)"
  using assms
  by (simp add: execute_def OpenFile_rdonly_def sources_distinct sources_distinct [symmetric])

lemma execute_file_missing:
  assumes "json_Marshal e (execute_params r) = Inr pb" and "source r = pathSource"
    and "open_deny e (location r) = None" and "files w (location r) = None"
  shows "execute e r w = (Inl (OtherError ''no such file or directory''), w)"
  using assms
  by (simp add: execute_def OpenFile_rdonly_def sources_distinct sources_distinct [symmetric])

lemma execute_file_unreadable:
  assumes "json_Marshal e (execute_params r) = Inr pb" and "source r = pathSource"
    and "open_deny e (location r) = None" and "files w (location r) = Some f"
    and "read_error e (location r) = Some err"
  shows "execute e r w = (Inl err, w)"
  using assms
  by (simp add: execute_def execute_upload_def OpenFile_rdonly_def File_Close_def
        sources_distinct sources_distinct [symmetric])

lemma example_env_boundary: "boundary example_env = ''b0''"
  by (simp add: example_env_def)

lemma example_env_umask: "umask example_env = 18"
  by (simp add: example_env_def)

lemma example_env_read_error:
  "read_error example_env path
     = (if path = ''path/to/broken.jpg'' then Some (OtherError ''input/output error'') else None)"
  by (simp add: example_env_def)

lemma example_env_open_deny:
  "open_deny example_env path
     = (if path = ''/denied/output.png'' then Some (OtherError ''permission denied'') else None)"
  by (simp add: example_env_def)

lemma example_Marshal_fetch:
  "example_Marshal (execute_params (Fetch c example_url)) = Inr example_payload"
  by (simp add: example_Marshal_def execute_params_def Let_def Fetch_def Request_literal_def
        put_step_def example_payload_def example_url_def)

lemma example_Marshal_upload:
  "src \<noteq> fetchSource \<Longrightarrow>
   example_Marshal (execute_params (Request_literal c src rd loc)) = Inr ''{}''"
  by (simp add: example_Marshal_def execute_params_def Let_def Request_literal_def put_step_def)

text \<open>
  C9 (amended). Let \<open>json.Marshal\<close> succeed on the params with the text \<open>pb\<close>. For a
  fetch source, \<open>execute\<close> hands exactly one request to the client: a POST to the API
  base plus \<open>/fetch\<close>, with the content type \<open>application/json\<close> and \<open>pb\<close> as the whole
  body. For a reader source whose reader yields its bytes without error, and for a path
  source whose file exists, can be opened and is read without error, it hands over
  exactly one request: a POST to the base plus \<open>/upload\<close>, whose body is a multipart
  form of exactly two parts, \<open>file\<close> with the input's bytes and \<open>data\<close> with \<open>pb\<close>, and
  whose content type names the form's boundary. What \<open>execute\<close> returns is the client's
  answer to that request. When a local step fails (\<open>json.Marshal\<close> returns an error,
  the reader of a reader source ends in an error, or the file of a path source cannot
  be opened, does not exist or is not read to its end), \<open>execute\<close> returns that error,
  sends no request and leaves the world as it was.
\<close>

theorem execute_sends_one_post:
  "(json_Marshal e (execute_params r) = Inr pb \<and> source r = fetchSource \<longrightarrow>
        (\<exists>req. sent (snd (execute e r w)) = sent w @ [req]
           \<and> fst (execute e r w) = http r req
           \<and> req_method req = ''POST'' \<and> req_url req = apiURL @ ''/fetch''
           \<and> req_header req ''Content-Type'' = Some (''application/json'')
           \<and> req_body req = Bytes pb))
   \<and> (json_Marshal e (execute_params r) = Inr pb \<and> source r = readerSource
        \<and> reader r = Some rd \<and> rd_err rd = None \<longrightarrow>
        (\<exists>req. sent (snd (execute e r w)) = sent w @ [req]
           \<and> fst (execute e r w) = http r req
           \<and> req_method req = ''POST'' \<and> req_url req = apiURL @ ''/upload''
           \<and> req_header req ''Content-Type'' = Some (''multipart/form-data; boundary='' @ boundary e)
           \<and> req_body req = Multipart (boundary e)
                   [FormFile ''file'' [] (rd_data rd), FormField ''data'' pb]))
   \<and> (json_Marshal e (execute_params r) = Inr pb \<and> source r = pathSource
        \<and> open_deny e (location r) = None \<and> files w (location r) = Some f
        \<and> read_error e (location r) = None \<longrightarrow>
        (\<exists>req. sent (snd (execute e r w)) = sent w @ [req]
           \<and> fst (execute e r w) = http r req
           \<and> req_method req = ''POST'' \<and> req_url req = apiURL @ ''/upload''
           \<and> req_header req ''Content-Type'' = Some (''multipart/form-data; boundary='' @ boundary e)
           \<and> req_body req = Multipart (boundary e)
                   [FormFile ''file'' [] (snd f), FormField ''data'' pb]))
   \<and> (json_Marshal e (execute_params r) = Inl err \<longrightarrow> execute e r w = (Inl err, w))
   \<and> (json_Marshal e (execute_params r) = Inr pb \<and> source r = readerSource
        \<and> reader r = Some rd \<and> rd_err rd = Some err \<longrightarrow>
        execute e r w = (Inl err, w))
   \<and> (json_Marshal e (execute_params r) = Inr pb \<and> source r = pathSource
        \<and> open_deny e (location r) = Some err \<longrightarrow>
        execute e r w = (Inl err, w))
   \<and> (json_Marshal e (execute_params r) = Inr pb \<and> source r = pathSource
        \<and> open_deny e (location r) = None \<and> files w (location r) = None \<longrightarrow>
        execute e r w = (Inl (OtherError ''no such file or directory''), w))
   \<and> (json_Marshal e (execute_params r) = Inr pb \<and> source r = pathSource
        \<and> open_deny e (location r) = None \<and> files w (location r) = Some f
        \<and> read_error e (location r) = Some err \<longrightarrow>
        execute e r w = (Inl err, w))"
proof (intro conjI impI; (elim conjE)?)
  show "execute e r w = (Inl err, w)" if "json_Marshal e (execute_params r) = Inl err"
    using that by (rule execute_marshal_fails)
qed (rule execute_fetch_request execute_reader_request execute_path_request
       execute_reader_fails execute_open_denied execute_file_missing
       execute_file_unreadable; assumption)+

text \<open>
  One builder of each source kind; then a marshaller that fails, a stream that breaks,
  a path that is refused, a file that is not there and a file that cannot be read.
\<close>

theorem execute_sends_one_post_witness:
  "(\<exists>req. sent (snd (execute example_env (Fetch (json_server text_success_foo) example_url)
                 example_world)) = [req]
      \<and> req_method req = ''POST''
      \<and> req_url req = ''https://api.optidash.ai/1.0/fetch''
      \<and> req_header req ''Content-Type'' = Some ''application/json''
      \<and> req_body req = Bytes example_payload)
   \<and> (\<exists>req. sent (snd (execute example_env
                 (Request_literal (json_server text_success_foo) readerSource
                    (Some (bytes_reader ''JPG'')) [])
                 example_world)) = [req]
      \<and> req_method req = ''POST''
      \<and> req_url req = ''https://api.optidash.ai/1.0/upload''
      \<and> req_header req ''Content-Type'' = Some ''multipart/form-data; boundary=b0''
      \<and> req_body req = Multipart ''b0'' [FormFile ''file'' [] ''JPG'', FormField ''data'' ''{}''])
   \<and> (\<exists>req. sent (snd (execute example_env
                 (Request_literal (json_server text_success_foo) pathSource None
                    ''path/to/input.jpg'')
                 (example_world\<lparr>files := [''path/to/input.jpg'' \<mapsto> (420, ''JPG'')]\<rparr>))) = [req]
      \<and> req_method req = ''POST''
      \<and> req_url req = ''https://api.optidash.ai/1.0/upload''
      \<and> req_header req ''Content-Type'' = Some ''multipart/form-data; boundary=b0''
      \<and> req_body req = Multipart ''b0'' [FormFile ''file'' [] ''JPG'', FormField ''data'' ''{}''])
   \<and> execute (example_env\<lparr>json_Marshal := \<lambda>params. Inl (OtherError ''unsupported type'')\<rparr>)
         (Fetch (json_server text_success_foo) example_url) example_world
       = (Inl (OtherError ''unsupported type''), example_world)
   \<and> execute example_env
         (Request_literal (json_server text_success_foo) readerSource
            (Some \<lparr>rd_data = ''JP'', rd_err = Some (OtherError ''unexpected EOF'')\<rparr>) [])
         example_world
       = (Inl (OtherError ''unexpected EOF''), example_world)
   \<and> execute example_env
         (Request_literal (json_server text_success_foo) pathSource None ''/denied/output.png'')
         example_world
       = (Inl (OtherError ''permission denied''), example_world)
   \<and> execute example_env
         (Request_literal (json_server text_success_foo) pathSource None ''path/to/absent.jpg'')
         example_world
       = (Inl (OtherError ''no such file or directory''), example_world)
   \<and> execute example_env
         (Request_literal (json_server text_success_foo) pathSource None ''path/to/broken.jpg'')
         (example_world\<lparr>files := [''path/to/broken.jpg'' \<mapsto> (420, ''JPG'')]\<rparr>)
       = (Inl (OtherError ''input/output error''),
          example_world\<lparr>files := [''path/to/broken.jpg'' \<mapsto> (420, ''JPG'')]\<rparr>)"
proof (intro conjI)
  show "\<exists>req. sent (snd (execute example_env (Fetch (json_server text_success_foo) example_url)
                 example_world)) = [req]
      \<and> req_method req = ''POST''
      \<and> req_url req = ''https://api.optidash.ai/1.0/fetch''
      \<and> req_header req ''Content-Type'' = Some ''application/json''
      \<and> req_body req = Bytes example_payload"
    using execute_sends_one_post
          [where e = example_env and r = "Fetch (json_server text_success_foo) example_url"
             and pb = example_payload and w = example_world]
    by (auto simp: example_env_Marshal example_Marshal_fetch Fetch_fields example_world_def
          apiURL_def)
next
  show "\<exists>req. sent (snd (execute example_env
                 (Request_literal (json_server text_success_foo) readerSource
                    (Some (bytes_reader ''JPG'')) [])
                 example_world)) = [req]
      \<and> req_method req = ''POST''
      \<and> req_url req = ''https://api.optidash.ai/1.0/upload''
      \<and> req_header req ''Content-Type'' = Some ''multipart/form-data; boundary=b0''
      \<and> req_body req = Multipart ''b0'' [FormFile ''file'' [] ''JPG'', FormField ''data'' ''{}'']"
    using execute_sends_one_post
          [where e = example_env
             and r = "Request_literal (json_server text_success_foo) readerSource
                        (Some (bytes_reader ''JPG'')) []"
             and pb = "''{}''" and rd = "bytes_reader ''JPG''" and w = example_world]
    by (auto simp: example_env_Marshal example_Marshal_upload sources_distinct
          Request_literal_fields example_env_boundary example_world_def apiURL_def
          bytes_reader_def)
next
  show "\<exists>req. sent (snd (execute example_env
                 (Request_literal (json_server text_success_foo) pathSource None
                    ''path/to/input.jpg'')
                 (example_world\<lparr>files := [''path/to/input.jpg'' \<mapsto> (420, ''JPG'')]\<rparr>))) = [req]
      \<and> req_method req = ''POST''
      \<and> req_url req = ''https://api.optidash.ai/1.0/upload''
      \<and> req_header req ''Content-Type'' = Some ''multipart/form-data; boundary=b0''
      \<and> req_body req = Multipart ''b0'' [FormFile ''file'' [] ''JPG'', FormField ''data'' ''{}'']"
    using execute_sends_one_post
          [where e = example_env
             and r = "Request_literal (json_server text_success_foo) pathSource None
                        ''path/to/input.jpg''"
             and pb = "''{}''"
             and w = "example_world\<lparr>files := [''path/to/input.jpg'' \<mapsto> (420, ''JPG'')]\<rparr>"
             and f = "(420, ''JPG'')"]
    by (auto simp: example_env_Marshal example_Marshal_upload sources_distinct
          Request_literal_fields example_env_boundary example_env_open_deny
          example_env_read_error example_world_def apiURL_def)
next
  show "execute (example_env\<lparr>json_Marshal := \<lambda>params. Inl (OtherError ''unsupported type'')\<rparr>)
         (Fetch (json_server text_success_foo) example_url) example_world
       = (Inl (OtherError ''unsupported type''), example_world)"
    using execute_sends_one_post
          [where e = "example_env\<lparr>json_Marshal := \<lambda>params. Inl (OtherError ''unsupported type'')\<rparr>"
             and r = "Fetch (json_server text_success_foo) example_url"
             and err = "OtherError ''unsupported type''" and w = example_world]
    by simp
next
  show "execute example_env
         (Request_literal (json_server text_success_foo) readerSource
            (Some \<lparr>rd_data = ''JP'', rd_err = Some (OtherError ''unexpected EOF'')\<rparr>) [])
         example_world
       = (Inl (OtherError ''unexpected EOF''), example_world)"
    using execute_sends_one_post
          [where e = example_env
             and r = "Request_literal (json_server text_success_foo) readerSource
                        (Some \<lparr>rd_data = ''JP'', rd_err = Some (OtherError ''unexpected EOF'')\<rparr>) []"
             and pb = "''{}''"
             and rd = "\<lparr>rd_data = ''JP'', rd_err = Some (OtherError ''unexpected EOF'')\<rparr>"
             and err = "OtherError ''unexpected EOF''" and w = example_world]
    by (simp add: example_env_Marshal example_Marshal_upload sources_distinct
          Request_literal_fields)
next
  show "execute example_env
         (Request_literal (json_server text_success_foo) pathSource None ''/denied/output.png'')
         example_world
       = (Inl (OtherError ''permission denied''), example_world)"
    using execute_sends_one_post
          [where e = example_env
             and r = "Request_literal (json_server text_success_foo) pathSource None
                        ''/denied/output.png''"
             and pb = "''{}''" and err = "OtherError ''permission denied''"
             and w = example_world]
    by (simp add: example_env_Marshal example_Marshal_upload sources_distinct
          Request_literal_fields example_env_open_deny)
next
  show "execute example_env
         (Request_literal (json_server text_success_foo) pathSource None ''path/to/absent.jpg'')
         example_world
       = (Inl (OtherError ''no such file or directory''), example_world)"
    using execute_sends_one_post
          [where e = example_env
             and r = "Request_literal (json_server text_success_foo) pathSource None
                        ''path/to/absent.jpg''"
             and pb = "''{}''" and w = example_world]
    by (simp add: example_env_Marshal example_Marshal_upload sources_distinct
          Request_literal_fields example_env_open_deny example_world_def)
next
  show "execute example_env
         (Request_literal (json_server text_success_foo) pathSource None ''path/to/broken.jpg'')
         (example_world\<lparr>files := [''path/to/broken.jpg'' \<mapsto> (420, ''JPG'')]\<rparr>)
       = (Inl (OtherError ''input/output error''),
          example_world\<lparr>files := [''path/to/broken.jpg'' \<mapsto> (420, ''JPG'')]\<rparr>)"
    using execute_sends_one_post
          [where e = example_env
             and r = "Request_literal (json_server text_success_foo) pathSource None
                        ''path/to/broken.jpg''"
             and pb = "''{}''" and f = "(420, ''JPG'')"
             and err = "OtherError ''input/output error''"
             and w = "example_world\<lparr>files := [''path/to/broken.jpg'' \<mapsto> (420, ''JPG'')]\<rparr>"]
    by (simp add: example_env_Marshal example_Marshal_upload sources_distinct
          Request_literal_fields example_env_open_deny example_env_read_error
          example_world_def)
qed

text \<open>
  C9 as stated fails for a path source whose file does not exist: \<open>execute\<close> returns
  the error of the open and no request is sent.
\<close>

theorem upload_missing_file_counterexample:
  "Upload (json_server text_success_foo) (InputString ''path/to/input.jpg'')
     = Some (Request_literal (json_server text_success_foo) pathSource None ''path/to/input.jpg'')
   \<and> fst (execute example_env
           (Request_literal (json_server text_success_foo) pathSource None ''path/to/input.jpg'')
           example_world)
       = Inl (OtherError ''no such file or directory'')
   \<and> sent (snd (execute example_env
           (Request_literal (json_server text_success_foo) pathSource None ''path/to/input.jpg'')
           example_world))
       = []"
  by (simp add: Upload_def execute_def example_env_Marshal example_Marshal_upload
        sources_distinct sources_distinct [symmetric] Request_literal_fields
        OpenFile_rdonly_def example_env_def example_world_def)


section \<open>A successful exchange in binary mode\<close>

lemma execute_fetch_sent_length:
  assumes "source r = fetchSource" and "json_Marshal e (execute_params r) = Inr pb"
  shows "length (sent (snd (execute e r w))) = Suc (length (sent w))"
proof -
  have "execute e r w
          = execute_send r (apiURL @ ''/fetch'') ''application/json'' (Bytes pb) w"
    using assms by (simp add: execute_def)
  then show ?thesis
    using execute_send_sent [of r "apiURL @ ''/fetch''" "''application/json''" "Bytes pb" w]
    by auto
qed

lemma ToReader_success:
  assumes "webhook r = None" and "store r = None"
    and "execute e (r\<lparr>response := Some [(''mode'', GStr ''binary'')]\<rparr>) w = (Inr resp, w1)"
    and "Header_Get (resp_header resp) ''X-Optidash-Meta'' \<noteq> []"
    and "Parse e (Header_Get (resp_header resp) ''X-Optidash-Meta'') = Inr (Some v)"
    and "Value_Get v ''success'' = Some sv" and "Value_Bool sv = Some True"
  shows "ToReader e r w
           = (Inr (Some v, resp_body resp),
              r\<lparr>response := Some [(''mode'', GStr ''binary'')]\<rparr>, w1)"
  using assms by (simp add: ToReader_def Let_def ToReader_deferred_def)

lemma ToReader_binary_server:
  "ToReader example_env (Fetch (binary_server text_success_foo) example_url) example_world
     = (Inr (Some (VObject [(''success'', VBool True), (''foo'', VInt 1)]), bytes_reader ''PNG''),
        (Fetch (binary_server text_success_foo) example_url)
           \<lparr>response := Some [(''mode'', GStr ''binary'')]\<rparr>,
        snd (execute example_env
               ((Fetch (binary_server text_success_foo) example_url)
                  \<lparr>response := Some [(''mode'', GStr ''binary'')]\<rparr>)
               example_world))"
proof -
  have "execute example_env
          ((Fetch (binary_server text_success_foo) example_url)
             \<lparr>response := Some [(''mode'', GStr ''binary'')]\<rparr>)
          example_world
        = (Inr \<lparr>resp_header = [''X-Optidash-Meta'' \<mapsto> text_success_foo],
                resp_body = bytes_reader ''PNG''\<rparr>,
           snd (execute example_env
                  ((Fetch (binary_server text_success_foo) example_url)
                     \<lparr>response := Some [(''mode'', GStr ''binary'')]\<rparr>)
                  example_world))"
    by (simp add: prod_eq_iff execute_binary_server example_env_Marshal)
  then show ?thesis
    using ToReader_success
            [where e = example_env
               and r = "Fetch (binary_server text_success_foo) example_url"
               and w = example_world
               and v = "VObject [(''success'', VBool True), (''foo'', VInt 1)]"
               and sv = "VBool True"]
    by (simp add: Fetch_fields Header_Get_def example_texts_distinct example_env_Parse
          example_Parse_values)
qed

lemma binary_server_world:
  "\<not> body_closed (snd (execute example_env
        ((Fetch (binary_server text_success_foo) example_url)
           \<lparr>response := Some [(''mode'', GStr ''binary'')]\<rparr>) example_world))"
  "files (snd (execute example_env
        ((Fetch (binary_server text_success_foo) example_url)
           \<lparr>response := Some [(''mode'', GStr ''binary'')]\<rparr>) example_world)) = Map.empty"
  "open_files (snd (execute example_env
        ((Fetch (binary_server text_success_foo) example_url)
           \<lparr>response := Some [(''mode'', GStr ''binary'')]\<rparr>) example_world)) = []"
  "length (sent (snd (execute example_env
        ((Fetch (binary_server text_success_foo) example_url)
           \<lparr>response := Some [(''mode'', GStr ''binary'')]\<rparr>) example_world))) = 1"
proof -
  obtain pb where "json_Marshal example_env
      (execute_params ((Fetch (binary_server text_success_foo) example_url)
           \<lparr>response := Some [(''mode'', GStr ''binary'')]\<rparr>)) = Inr pb"
    using example_Marshal_total by (auto simp: example_env_Marshal)
  then show "length (sent (snd (execute example_env
        ((Fetch (binary_server text_success_foo) example_url)
           \<lparr>response := Some [(''mode'', GStr ''binary'')]\<rparr>) example_world))) = 1"
    using execute_fetch_sent_length
            [where e = example_env
               and r = "(Fetch (binary_server text_success_foo) example_url)
                          \<lparr>response := Some [(''mode'', GStr ''binary'')]\<rparr>"
               and w = example_world]
    by (simp add: Fetch_fields example_world_def)
qed (simp_all add: execute_body_closed execute_fetch_files Fetch_fields example_world_def)

section \<open>The response body\<close>

text \<open>
  Who closes the body. \<open>ToJSON\<close> never does. \<open>ToReader\<close> does on each of its error
  returns after a response was obtained, and leaves it open on success. \<open>ToFile\<close> and
  \<open>CopyTo\<close> leave the body as \<open>ToReader\<close> left it; apart from that, a successful
  \<open>CopyTo\<close> appends the stream to the writer, and a successful \<open>ToFile\<close> leaves the
  stream's bytes in the file, created with \<open>perm\<close> less the umask or truncated, and
  no handle open.
\<close>

lemma ToJSON_body_closed:
  "body_closed (snd (ToJSON e r w)) = body_closed w"
proof -
  obtain res w1 where ex: "execute e r w = (res, w1)"
    by (cases "execute e r w")
  then have "body_closed w1 = body_closed w"
    using execute_body_closed [of e r w] by simp
  moreover have "snd (ToJSON e r w) = w1"
    using ex by (simp add: ToJSON_def split: sum.splits option.splits)
  ultimately show ?thesis by simp
qed

lemma ToFile_body_closed:
  "body_closed (snd (snd (ToFile e r input perm w)))
     = body_closed (snd (snd (ToReader e r w)))"
  by (simp add: ToFile_def OpenFile_create_def Copy_to_file_def File_Close_def
        split: prod.splits sum.splits option.splits)

lemma CopyTo_body_closed:
  "body_closed (snd (snd (snd (CopyTo e r input w))))
     = body_closed (snd (snd (ToReader e r w)))"
  by (simp add: CopyTo_def split: prod.splits sum.splits option.splits)

lemma ToReader_world:
  "snd (snd (ToReader e r w)) =
     (if webhook r \<noteq> None then w
      else if store r \<noteq> None then w
      else (case execute e (r\<lparr>response := Some [(''mode'', GStr ''binary'')]\<rparr>) w of
              (Inl err, w1) \<Rightarrow> w1
            | (Inr resp, w1) \<Rightarrow>
                (case fst (ToReader e r w) of Inl err \<Rightarrow> Body_Close w1 | Inr res \<Rightarrow> w1)))"
  by (simp add: ToReader_def Let_def ToReader_deferred_def
        split: prod.splits sum.splits option.splits)

lemma ToReader_error_closes_body:
  assumes "webhook r = None" and "store r = None"
    and "fst (execute e (r\<lparr>response := Some [(''mode'', GStr ''binary'')]\<rparr>) w) = Inr resp"
    and "fst (ToReader e r w) = Inl err"
  shows "body_closed (snd (snd (ToReader e r w)))"
proof -
  obtain w1 where
    "execute e (r\<lparr>response := Some [(''mode'', GStr ''binary'')]\<rparr>) w = (Inr resp, w1)"
    using assms(3)
    by (cases "execute e (r\<lparr>response := Some [(''mode'', GStr ''binary'')]\<rparr>) w") simp
  then have "snd (snd (ToReader e r w)) = Body_Close w1"
    using assms(1,2,4) by (simp add: ToReader_world)
  then show ?thesis by (simp add: Body_Close_def)
qed

lemma ToReader_success_keeps_body:
  assumes "fst (ToReader e r w) = Inr res"
  shows "body_closed (snd (snd (ToReader e r w))) = body_closed w"
proof -
  obtain x w1 where ex:
    "execute e (r\<lparr>response := Some [(''mode'', GStr ''binary'')]\<rparr>) w = (x, w1)"
    by (cases "execute e (r\<lparr>response := Some [(''mode'', GStr ''binary'')]\<rparr>) w")
  then have "body_closed w1 = body_closed w"
    using execute_body_closed [of e "r\<lparr>response := Some [(''mode'', GStr ''binary'')]\<rparr>" w]
    by simp
  then show ?thesis
    using assms ex by (cases x) (simp_all add: ToReader_world)
qed

lemma CopyTo_success_copies:
  assumes "ToReader e r w = (Inr (meta, rd), r1, w1)"
    and "rd_err rd = None" and "wr_err dst = None"
  shows "CopyTo e r dst w = (Inr meta, r1, dst\<lparr>wr_data := wr_data dst @ rd_data rd\<rparr>, w1)"
  using assms by (simp add: CopyTo_def io_Copy_def)

lemma ToFile_success_writes:
  assumes "ToReader e r w = (Inr (meta, rd), r1, w1)"
    and "open_deny e input = None" and "rd_err rd = None"
  shows "ToFile e r input perm w
           = (Inr meta, r1,
              w1\<lparr>files := (files w1)(input \<mapsto>
                     ((case files w1 input of
                         None \<Rightarrow> perm - (perm AND umask e)
                       | Some f \<Rightarrow> fst f), rd_data rd))\<rparr>)"
  using assms
  by (simp add: ToFile_def OpenFile_create_def Copy_to_file_def File_Close_def)

text \<open>
  C3 (the code falls short of it). The claim asks that an error return after a response
  was obtained closes the body. The server answers with a valid envelope and the image.
  \<open>ToFile\<close> on a path that cannot be opened returns the error of the open, after one
  request, with the body still open; \<open>CopyTo\<close> into a writer that fails returns the
  writer's error, with the body still open.
\<close>

theorem terminal_errors_leave_body_open:
  "fst (ToFile example_env (Fetch (binary_server text_success_foo) example_url)
          ''/denied/output.png'' 420 example_world)
     = Inl (OtherError ''permission denied'')
   \<and> length (sent (snd (snd (ToFile example_env
          (Fetch (binary_server text_success_foo) example_url)
          ''/denied/output.png'' 420 example_world)))) = 1
   \<and> \<not> body_closed (snd (snd (ToFile example_env
          (Fetch (binary_server text_success_foo) example_url)
          ''/denied/output.png'' 420 example_world)))
   \<and> fst (CopyTo example_env (Fetch (binary_server text_success_foo) example_url)
          \<lparr>wr_data = [], wr_err = Some (OtherError ''short write'')\<rparr> example_world)
     = Inl (OtherError ''short write'')
   \<and> \<not> body_closed (snd (snd (snd (CopyTo example_env
          (Fetch (binary_server text_success_foo) example_url)
          \<lparr>wr_data = [], wr_err = Some (OtherError ''short write'')\<rparr> example_world))))"
  by (simp add: ToFile_def CopyTo_def ToReader_binary_server binary_server_world
        OpenFile_create_def example_env_open_deny io_Copy_def bytes_reader_def)

text \<open>
  C4 (the code falls short of it). The claim asks that \<open>CopyTo\<close> closes the response
  stream on success. On a successful exchange the writer holds the whole image and the
  metadata is returned, and the response body is still open.
\<close>

theorem CopyTo_success_leaves_body_open:
  "fst (CopyTo example_env (Fetch (binary_server text_success_foo) example_url)
          \<lparr>wr_data = [], wr_err = None\<rparr> example_world)
     = Inr (Some (VObject [(''success'', VBool True), (''foo'', VInt 1)]))
   \<and> fst (snd (snd (CopyTo example_env (Fetch (binary_server text_success_foo) example_url)
          \<lparr>wr_data = [], wr_err = None\<rparr> example_world)))
     = \<lparr>wr_data = ''PNG'', wr_err = None\<rparr>
   \<and> \<not> body_closed (snd (snd (snd (CopyTo example_env
          (Fetch (binary_server text_success_foo) example_url)
          \<lparr>wr_data = [], wr_err = None\<rparr> example_world))))"
  by (simp add: CopyTo_def ToReader_binary_server binary_server_world io_Copy_def
        bytes_reader_def)

text \<open>
  C5 (the code falls short of it). The claim asks that \<open>ToFile\<close> closes the file and
  the response stream on success. On a successful exchange the new file holds the image
  with the permission bits 0644 and no file handle is left open, and the response body
  is still open.
\<close>

theorem ToFile_success_leaves_body_open:
  "fst (ToFile example_env (Fetch (binary_server text_success_foo) example_url)
          ''path/to/output.png'' 420 example_world)
     = Inr (Some (VObject [(''success'', VBool True), (''foo'', VInt 1)]))
   \<and> files (snd (snd (ToFile example_env (Fetch (binary_server text_success_foo) example_url)
          ''path/to/output.png'' 420 example_world))) ''path/to/output.png''
     = Some (420, ''PNG'')
   \<and> open_files (snd (snd (ToFile example_env
          (Fetch (binary_server text_success_foo) example_url)
          ''path/to/output.png'' 420 example_world))) = []
   \<and> \<not> body_closed (snd (snd (ToFile example_env
          (Fetch (binary_server text_success_foo) example_url)
          ''path/to/output.png'' 420 example_world)))"
  by (simp add: ToFile_def ToReader_binary_server binary_server_world
        OpenFile_create_def example_env_open_deny example_env_umask Copy_to_file_def
        File_Close_def bytes_reader_def)

end
